theory Spec2Isabelle
  imports Complex_Main
begin

section \<open>Values of the program\<close>

text \<open>
  The program under verification is \<^verbatim>\<open>streamlit_app_chat_Zeyneb.py\<close>: a Streamlit
  client that posts search requests to a remote API and draws the answers. Everything
  it computes on is Python text and decoded JSON, everything it does is an HTTP call
  or a Streamlit call.

  A Python \<^verbatim>\<open>str\<close> is a sequence of Unicode code points; it is modelled as a list of
  code points. The ASCII literals of the source are written with \<open>lit\<close>.
\<close>

type_synonym pystr = "nat list"

definition lit :: "string \<Rightarrow> pystr" where
  "lit s = map of_char s"

text \<open>
  A Python \<^verbatim>\<open>float\<close> as \<^verbatim>\<open>json.loads\<close> produces it: a finite value (kept as the exact
  rational it denotes), the negative zero, the infinities and NaN (Python's decoder
  accepts \<^verbatim>\<open>NaN\<close>, \<^verbatim>\<open>Infinity\<close> and \<^verbatim>\<open>-Infinity\<close>).
\<close>

datatype pyfloat = Finite rat | NegZero | PosInf | NegInf | NaN

text \<open>
  A decoded JSON document, which is also the type of every Python value the script
  holds in a variable: \<^verbatim>\<open>None\<close>, \<^verbatim>\<open>bool\<close>, \<^verbatim>\<open>int\<close>, \<^verbatim>\<open>float\<close>, \<^verbatim>\<open>str\<close>, \<^verbatim>\<open>list\<close> and
  \<^verbatim>\<open>dict\<close>. A dict is an association list in insertion order; the decoder leaves no
  duplicate key, and a lookup takes the first entry of a key.
\<close>

datatype json =
    JNull
  | JBool bool
  | JInt int
  | JFloat pyfloat
  | JStr pystr
  | JArr "json list"
  | JObj "(pystr \<times> json) list"

text \<open>The exceptions that can be raised along the script's paths.\<close>

datatype exn =
    Timeout
  | ConnectionError
  | HTTPError nat
  | JSONDecodeError
  | AttributeError
  | TypeError
  | ValueError
  | OverflowError
  | OtherException

text \<open>
  \<^verbatim>\<open>requests.exceptions.Timeout\<close>, \<^verbatim>\<open>ConnectionError\<close>, \<^verbatim>\<open>HTTPError\<close> and the
  \<^verbatim>\<open>JSONDecodeError\<close> of \<^verbatim>\<open>Response.json()\<close> are subclasses of
  \<^verbatim>\<open>requests.exceptions.RequestException\<close>; the others are not.
\<close>

fun is_RequestException :: "exn \<Rightarrow> bool" where
  "is_RequestException Timeout = True"
| "is_RequestException ConnectionError = True"
| "is_RequestException (HTTPError _) = True"
| "is_RequestException JSONDecodeError = True"
| "is_RequestException _ = False"

subsection \<open>Python's truth value, \<^verbatim>\<open>dict.get\<close>, \<^verbatim>\<open>or\<close>, iteration, \<^verbatim>\<open>str.strip\<close>\<close>

fun float_truthy :: "pyfloat \<Rightarrow> bool" where
  "float_truthy (Finite r) = (r \<noteq> 0)"
| "float_truthy NegZero = False"
| "float_truthy _ = True"

fun truthy :: "json \<Rightarrow> bool" where
  "truthy JNull = False"
| "truthy (JBool b) = b"
| "truthy (JInt n) = (n \<noteq> 0)"
| "truthy (JFloat f) = float_truthy f"
| "truthy (JStr s) = (s \<noteq> [])"
| "truthy (JArr xs) = (xs \<noteq> [])"
| "truthy (JObj kvs) = (kvs \<noteq> [])"

text \<open>\<^verbatim>\<open>d.get(key, default)\<close> on a dict \<open>d\<close>.\<close>

definition dict_get :: "(pystr \<times> json) list \<Rightarrow> pystr \<Rightarrow> json \<Rightarrow> json" where
  "dict_get kvs k d = (case map_of kvs k of Some v \<Rightarrow> v | None \<Rightarrow> d)"

text \<open>\<^verbatim>\<open>a or b\<close>.\<close>

definition py_or :: "json \<Rightarrow> json \<Rightarrow> json" where
  "py_or a b = (if truthy a then a else b)"

text \<open>
  The items a \<^verbatim>\<open>for\<close> loop takes from a value: the elements of a list, the keys of a
  dict, the one-character strings of a string; any other value is not iterable.
\<close>

fun py_iter :: "json \<Rightarrow> exn + json list" where
  "py_iter (JArr xs) = Inr xs"
| "py_iter (JObj kvs) = Inr (map (\<lambda>kv. JStr (fst kv)) kvs)"
| "py_iter (JStr s) = Inr (map (\<lambda>c. JStr [c]) s)"
| "py_iter _ = Inl TypeError"

text \<open>
  The code points \<^verbatim>\<open>str.strip()\<close> removes: those for which \<^verbatim>\<open>str.isspace\<close> holds.
\<close>

definition is_space :: "nat \<Rightarrow> bool" where
  "is_space c \<longleftrightarrow>
     (9 \<le> c \<and> c \<le> 13) \<or> (28 \<le> c \<and> c \<le> 32) \<or> c = 133 \<or> c = 160 \<or> c = 5760 \<or>
     (8192 \<le> c \<and> c \<le> 8202) \<or> c = 8232 \<or> c = 8233 \<or> c = 8239 \<or> c = 8287 \<or> c = 12288"

definition strip :: "pystr \<Rightarrow> pystr" where
  "strip s = rev (dropWhile is_space (rev (dropWhile is_space s)))"

section \<open>The collaborators: the HTTP client and Streamlit\<close>

text \<open>
  One call \<^verbatim>\<open>requests.post(url, json=..., headers=..., timeout=...)\<close>. What the remote
  side does with it is not part of the program: the transport is a parameter that maps
  the calls made so far and the present call to its outcome, which is an exception or
  a response with its status code and its body (\<open>None\<close> when the body is not JSON, so
  that \<^verbatim>\<open>Response.json()\<close> raises).
\<close>

record request =
  url :: pystr
  json_body :: json
  headers :: "(pystr \<times> pystr) list"
  timeout :: nat

datatype outcome = Raises exn | Responds nat "json option"

type_synonym transport = "request list \<Rightarrow> request \<Rightarrow> outcome"

text \<open>
  The text handed to a Streamlit call is an f-string: literal pieces and formatted
  values. \<open>Str v\<close> is \<^verbatim>\<open>{v}\<close> (the text of \<^verbatim>\<open>str(v)\<close>), \<open>Fix4 v\<close> is \<^verbatim>\<open>{v:.4f}\<close> and
  \<open>Exc e\<close> is the message of a caught exception.
\<close>

datatype seg = Lit pystr | Str json | Fix4 json | Exc exn

type_synonym fstring = "seg list"

text \<open>
  The Streamlit calls that draw something after a submission. Layout containers
  (\<^verbatim>\<open>st.columns\<close>, \<^verbatim>\<open>st.spinner\<close>) draw nothing of their own; an expander is recorded by
  its title, followed by what is drawn inside it.
\<close>

datatype element =
    St_info fstring
  | St_warning fstring
  | St_error fstring
  | St_success fstring
  | St_expander fstring
  | St_markdown fstring
  | St_write fstring
  | St_json json

text \<open>The state of one run of the script: the HTTP calls made and the elements drawn.\<close>

record world =
  calls :: "request list"
  ui :: "element list"

definition post :: "transport \<Rightarrow> request \<Rightarrow> world \<Rightarrow> outcome \<times> world" where
  "post net r w = (net (calls w) r, w\<lparr>calls := calls w @ [r]\<rparr>)"

definition st :: "element \<Rightarrow> world \<Rightarrow> world" where
  "st e w = w\<lparr>ui := ui w @ [e]\<rparr>"

definition json_headers :: "(pystr \<times> pystr) list" where
  "json_headers = [(lit ''Content-Type'', lit ''application/json'')]"

text \<open>
  \<^verbatim>\<open>Response.raise_for_status()\<close> raises \<^verbatim>\<open>HTTPError\<close> for the status codes 400 to 599.
\<close>

definition raise_for_status :: "nat \<Rightarrow> bool" where
  "raise_for_status status \<longleftrightarrow> 400 \<le> status \<and> status < 600"

section \<open>Helper functions of the script\<close>

text \<open>
  Lines 46 to 62 of \<^verbatim>\<open>search_api\<close>: the spelling correction, which yields the value
  of \<^verbatim>\<open>search_query\<close>. The whole block is inside \<^verbatim>\<open>try ... except Exception\<close>, so every
  exception raised in it (by the call, by \<^verbatim>\<open>.json()\<close> on a body that is not JSON, by
  \<^verbatim>\<open>.get\<close> on a body that is not a dict) ends in the warning.
\<close>

definition spelling_unavailable :: "exn \<Rightarrow> element" where
  "spelling_unavailable e = St_warning [Lit (lit ''Spelling correction unavailable: ''), Exc e]"

definition spelling_request :: "pystr \<Rightarrow> pystr \<Rightarrow> request" where
  "spelling_request base query =
     \<lparr>url = base @ lit ''/spellingcorrection'',
      json_body = JObj [(lit ''query'', JStr query)],
      headers = json_headers, timeout = 10\<rparr>"

definition spelling_step :: "pystr \<Rightarrow> transport \<Rightarrow> pystr \<Rightarrow> world \<Rightarrow> json \<times> world" where
  "spelling_step base net query w =
     (case post net (spelling_request base query) w of
        (Raises e, w1) \<Rightarrow> (JStr query, st (spelling_unavailable e) w1)
      | (Responds status content, w1) \<Rightarrow>
          if status = 200 then
            (case content of
               None \<Rightarrow> (JStr query, st (spelling_unavailable JSONDecodeError) w1)
             | Some (JObj spell_data) \<Rightarrow>
                 (let corrected = dict_get spell_data (lit ''corrected_query'') (JStr query)
                  in if corrected \<noteq> JStr query
                     then (corrected,
                           st (St_info [Lit (10024 # lit '' Using corrected query: `''),
                                        Str corrected, Lit (lit ''`'')]) w1)
                     else (JStr query, w1))
             | Some _ \<Rightarrow> (JStr query, st (spelling_unavailable AttributeError) w1))
          else (JStr query, w1))"

text \<open>
  The two \<^verbatim>\<open>except\<close> clauses of \<^verbatim>\<open>search_api\<close>, in their order; an exception that is
  not a \<^verbatim>\<open>RequestException\<close> leaves the function.
\<close>

definition search_except :: "exn \<Rightarrow> world \<Rightarrow> (exn + json) \<times> world" where
  "search_except e w =
     (if e = Timeout
      then (Inr JNull,
            st (St_error [Lit ([9201, 65039] @ lit '' Request timed out. Please try again.'')]) w)
      else if is_RequestException e
      then (Inr JNull, st (St_error [Lit (10060 # lit '' Request failed: ''), Exc e]) w)
      else (Inl e, w))"

definition search_request ::
  "pystr \<Rightarrow> json \<Rightarrow> int \<Rightarrow> bool \<Rightarrow> pyfloat \<Rightarrow> pystr \<Rightarrow> request" where
  "search_request base search_query size' use_vector alpha language =
     \<lparr>url = base @ lit ''/search/'' @ language,
      json_body = JObj [(lit ''query'', search_query),
                        (lit ''size'', JInt size'),
                        (lit ''alpha'', JFloat alpha),
                        (lit ''use_vector'', JBool use_vector)],
      headers = json_headers, timeout = 30\<rparr>"

text \<open>\<^verbatim>\<open>search_api\<close>; the result \<^verbatim>\<open>None\<close> is \<open>JNull\<close>.\<close>

definition search_api ::
  "pystr \<Rightarrow> transport \<Rightarrow> pystr \<Rightarrow> int \<Rightarrow> bool \<Rightarrow> pyfloat \<Rightarrow> pystr \<Rightarrow> bool \<Rightarrow> world
     \<Rightarrow> (exn + json) \<times> world" where
  "search_api base net query size' use_vector alpha language use_spelling w =
     (case (if use_spelling then spelling_step base net query w else (JStr query, w)) of
        (search_query, w1) \<Rightarrow>
          (case post net (search_request base search_query size' use_vector alpha language) w1 of
             (Raises e, w2) \<Rightarrow> search_except e w2
           | (Responds status content, w2) \<Rightarrow>
               if raise_for_status status then search_except (HTTPError status) w2
               else (case content of
                       None \<Rightarrow> search_except JSONDecodeError w2
                     | Some j \<Rightarrow> (Inr j, w2))))"

text \<open>\<^verbatim>\<open>search_organizations\<close>, with its single \<^verbatim>\<open>except\<close> clause.\<close>

definition organizations_except :: "exn \<Rightarrow> world \<Rightarrow> (exn + json) \<times> world" where
  "organizations_except e w =
     (if is_RequestException e
      then (Inr JNull, st (St_error [Lit (10060 # lit '' Request failed: ''), Exc e]) w)
      else (Inl e, w))"

definition organizations_request :: "pystr \<Rightarrow> pystr \<Rightarrow> int \<Rightarrow> request" where
  "organizations_request base search_term size' =
     \<lparr>url = base @ lit ''/organizations'',
      json_body = JObj [(lit ''search_term'', JStr search_term),
                        (lit ''index'', JStr (lit ''organizations_v3'')),
                        (lit ''size'', JInt size')],
      headers = json_headers, timeout = 30\<rparr>"

definition search_organizations ::
  "pystr \<Rightarrow> transport \<Rightarrow> pystr \<Rightarrow> int \<Rightarrow> world \<Rightarrow> (exn + json) \<times> world" where
  "search_organizations base net search_term size' w =
     (case post net (organizations_request base search_term size') w of
        (Raises e, w1) \<Rightarrow> organizations_except e w1
      | (Responds status content, w1) \<Rightarrow>
          if raise_for_status status then organizations_except (HTTPError status) w1
          else (case content of
                  None \<Rightarrow> organizations_except JSONDecodeError w1
                | Some j \<Rightarrow> (Inr j, w1)))"

section \<open>Drawing the results\<close>

text \<open>
  What a piece of the script draws: the elements, in order, and the exception that
  stopped it, if one was raised. An exception raised while drawing is caught nowhere in
  the script: it ends the run, and what was drawn before it stays.
\<close>

type_synonym drawn = "element list \<times> exn option"

fun seqs :: "drawn list \<Rightarrow> drawn" where
  "seqs [] = ([], None)"
| "seqs (d # ds) =
     (case snd d of
        Some e \<Rightarrow> d
      | None \<Rightarrow> (fst d @ fst (seqs ds), snd (seqs ds)))"

text \<open>
  \<^verbatim>\<open>{v:.4f}\<close>: a float, an int (converted to a float first, which overflows from
  \<open>2^1024 - 2^970\<close> on) and a bool can be formatted; for a string the format code is
  a \<^verbatim>\<open>ValueError\<close>, for \<^verbatim>\<open>None\<close>, a list and a dict a \<^verbatim>\<open>TypeError\<close>.
\<close>

fun fix4 :: "json \<Rightarrow> exn + seg" where
  "fix4 (JFloat f) = Inr (Fix4 (JFloat f))"
| "fix4 (JInt n) = (if \<bar>n\<bar> < 2 ^ 1024 - 2 ^ 970 then Inr (Fix4 (JInt n)) else Inl OverflowError)"
| "fix4 (JBool b) = Inr (Fix4 (JBool b))"
| "fix4 (JStr s) = Inl ValueError"
| "fix4 _ = Inl TypeError"

text \<open>
  \<^verbatim>\<open>if score: st.markdown(f"**Score:** {score:.4f}")\<close>, the same in the four tabs.
\<close>

definition score_line :: "json \<Rightarrow> drawn" where
  "score_line score =
     (if truthy score
      then (case fix4 score of
              Inl e \<Rightarrow> ([], Some e)
            | Inr t \<Rightarrow> ([St_markdown [Lit (lit ''**Score:** ''), t]], None))
      else ([], None))"

text \<open>
  The three search tabs are the same code up to the language: its code in the URL and
  in the names of the four name fields.
\<close>

datatype language = Az | En | Ru

fun lang_code :: "language \<Rightarrow> string" where
  "lang_code Az = ''az''"
| "lang_code En = ''en''"
| "lang_code Ru = ''ru''"

definition name_field :: "language \<Rightarrow> string \<Rightarrow> pystr" where
  "name_field l d = lit (''name_'' @ lang_code l @ ''_d'' @ d)"

definition na :: json where
  "na = JStr (lit ''N/A'')"

text \<open>The title of a block, \<^verbatim>\<open>f"#{i} - {name}"\<close>, the same in the four tabs.\<close>

definition numbered :: "nat \<Rightarrow> json \<Rightarrow> fstring" where
  "numbered i name = [Lit (lit ''#''), Str (JInt (int i)), Lit (lit '' - ''), Str name]"

text \<open>The body of \<^verbatim>\<open>for t in tradings\<close>; \<^verbatim>\<open>t.get\<close> exists on a dict only.\<close>

fun render_trading :: "json \<Rightarrow> drawn" where
  "render_trading (JObj t) =
     (let trade_type = dict_get t (lit ''tradeType'') na;
          trade_name = dict_get t (lit ''tradeName'') na
      in ([St_write [Lit (8226 # lit '' ''), Str trade_name, Lit (lit '' (''), Str trade_type,
                     Lit (lit '')'')]]
          @ (if truthy (dict_get t (lit ''inVehicleId'') JNull)
             then [St_write [Lit (lit ''  In: Vehicle ''),
                             Str (dict_get t (lit ''inVehicleId'') JNull)]]
             else [])
          @ (if truthy (dict_get t (lit ''outVehicleId'') JNull)
             then [St_write [Lit (lit ''  Out: Vehicle ''),
                             Str (dict_get t (lit ''outVehicleId'') JNull)]]
             else []),
          None))"
| "render_trading _ = ([], Some AttributeError)"

fun render_tradings :: "json list \<Rightarrow> drawn" where
  "render_tradings [] = ([], None)"
| "render_tradings (t # ts) = seqs [render_trading t, render_tradings ts]"

definition tradings_part :: "json \<Rightarrow> drawn" where
  "tradings_part tradings =
     (if truthy tradings
      then seqs [([St_markdown [Lit (lit ''**Tradings:**'')]], None),
                 (case py_iter tradings of
                    Inl e \<Rightarrow> ([], Some e)
                  | Inr ts \<Rightarrow> render_tradings ts)]
      else ([St_markdown [Lit (lit ''*No trading info*'')]], None))"

text \<open>\<^verbatim>\<open>score = hit.get('_score') or source.get('score')\<close> (line 156).\<close>

definition hit_score :: "(pystr \<times> json) list \<Rightarrow> (pystr \<times> json) list \<Rightarrow> json" where
  "hit_score hit source =
     py_or (dict_get hit (lit ''_score'') JNull) (dict_get source (lit ''score'') JNull)"

text \<open>
  The body of \<^verbatim>\<open>for i, hit in enumerate(hits, start=1)\<close> once \<^verbatim>\<open>source\<close> is known to be
  a dict (lines 149 to 180).
\<close>

definition render_source ::
  "language \<Rightarrow> nat \<Rightarrow> (pystr \<times> json) list \<Rightarrow> (pystr \<times> json) list \<Rightarrow> drawn" where
  "render_source l i hit source =
     (let name_display =
            dict_get source (name_field l ''4'')
              (dict_get source (lit ''code'') (JStr (lit ''No Name'')))
      in seqs
          [([St_expander (numbered i name_display),
             St_markdown [Lit (lit ''**Code:** `''), Str (dict_get source (lit ''code'') na),
                          Lit (lit ''`'')]], None),
           score_line (hit_score hit source),
           ([St_markdown [Lit (lit ''**Category (D1):** ''),
                          Str (dict_get source (name_field l ''1'') na)],
             St_markdown [Lit (lit ''**Subcategory (D2):** ''),
                          Str (dict_get source (name_field l ''2'') na)],
             St_markdown [Lit (lit ''**Sub-subcategory (D3):** ''),
                          Str (dict_get source (name_field l ''3'') na)],
             St_markdown [Lit (lit ''**Product (D4):** ''),
                          Str (dict_get source (name_field l ''4'') na)],
             St_markdown [Lit (lit ''**Full Path:** ''),
                          Str (dict_get source (lit ''Path'') (JStr (lit ''-'')))]], None),
           tradings_part (dict_get source (lit ''tradings'') (JArr []))])"

text \<open>
  \<^verbatim>\<open>source = hit.get('_source', hit)\<close>: \<^verbatim>\<open>hit.get\<close> needs a dict, and so does
  \<^verbatim>\<open>source.get\<close> on the next line.
\<close>

fun render_hit :: "language \<Rightarrow> nat \<Rightarrow> json \<Rightarrow> drawn" where
  "render_hit l i (JObj hit) =
     (case dict_get hit (lit ''_source'') (JObj hit) of
        JObj source \<Rightarrow> render_source l i hit source
      | _ \<Rightarrow> ([], Some AttributeError))"
| "render_hit l i _ = ([], Some AttributeError)"

fun render_hits :: "language \<Rightarrow> nat \<Rightarrow> json list \<Rightarrow> drawn" where
  "render_hits l i [] = ([], None)"
| "render_hits l i (hit # hits) = seqs [render_hit l i hit, render_hits l (Suc i) hits]"

text \<open>Lines 141 to 180: what a search tab draws for a result that is true.\<close>

definition render_results :: "language \<Rightarrow> json \<Rightarrow> drawn" where
  "render_results l result =
     (case result of
        JObj r \<Rightarrow>
          seqs [([St_success [Lit (9989 # lit '' Found ''),
                              Str (dict_get r (lit ''total-hits'') (JInt 0)),
                              Lit (lit '' hits'')]], None),
                (let hits = dict_get r (lit ''Ranked-objects'') (JArr [])
                 in if \<not> truthy hits then ([St_info [Lit (lit ''No results found.'')]], None)
                    else (case py_iter hits of
                            Inl e \<Rightarrow> ([], Some e)
                          | Inr hs \<Rightarrow> render_hits l 1 hs))]
      | _ \<Rightarrow> ([], Some AttributeError))"

text \<open>The body of \<^verbatim>\<open>for i, org in enumerate(orgs, start=1)\<close> (lines 350 to 365).\<close>

fun render_org :: "nat \<Rightarrow> json \<Rightarrow> drawn" where
  "render_org i (JObj org) =
     seqs [([St_expander (numbered i (dict_get org (lit ''name'') na)),
             St_markdown [Lit (lit ''**Name:** ''), Str (dict_get org (lit ''name'') na)],
             St_markdown [Lit (lit ''**Abbreviation:** ''),
                          Str (dict_get org (lit ''abbreviation'') na)],
             St_markdown [Lit (lit ''**ID:** ''), Str (dict_get org (lit ''id'') na)]], None),
           score_line (dict_get org (lit ''score'') JNull),
           (if truthy (dict_get org (lit ''additional_info'') JNull)
            then ([St_markdown [Lit (lit ''**Additional Info:**'')],
                   St_json (dict_get org (lit ''additional_info'') JNull)], None)
            else ([], None))]"
| "render_org i _ = ([], Some AttributeError)"

fun render_orgs :: "nat \<Rightarrow> json list \<Rightarrow> drawn" where
  "render_orgs i [] = ([], None)"
| "render_orgs i (org # orgs) = seqs [render_org i org, render_orgs (Suc i) orgs]"

text \<open>Lines 343 to 365.\<close>

definition render_org_results :: "json \<Rightarrow> drawn" where
  "render_org_results result =
     (case result of
        JObj r \<Rightarrow>
          seqs [([St_success [Lit (9989 # lit '' Found ''),
                              Str (dict_get r (lit ''total-hits'') (JInt 0)),
                              Lit (lit '' organizations'')]], None),
                (let orgs = dict_get r (lit ''results'') (JArr [])
                 in if \<not> truthy orgs then ([St_info [Lit (lit ''No results found.'')]], None)
                    else (case py_iter orgs of
                            Inl e \<Rightarrow> ([], Some e)
                          | Inr os \<Rightarrow> render_orgs 1 os))]
      | _ \<Rightarrow> ([], Some AttributeError))"

section \<open>The tabs\<close>

text \<open>
  The values of the widgets of a search form when the script runs: \<^verbatim>\<open>st.text_input\<close>
  gives a string, \<^verbatim>\<open>st.number_input\<close> with integer bounds an int, \<^verbatim>\<open>st.slider\<close> with
  float bounds a float, \<^verbatim>\<open>st.checkbox\<close> and \<^verbatim>\<open>st.form_submit_button\<close> a bool.
\<close>

record search_form =
  form_query :: pystr
  form_size :: int
  form_alpha :: pyfloat
  form_use_vector :: bool
  form_use_spelling :: bool
  form_submitted :: bool

text \<open>
  One run of a search tab (lines 133 to 180, 203 to 250, 273 to 320). The result is the
  exception that ended the run, if any, and the state after it.
\<close>

definition search_tab ::
  "pystr \<Rightarrow> transport \<Rightarrow> language \<Rightarrow> search_form \<Rightarrow> world \<Rightarrow> exn option \<times> world" where
  "search_tab base net l f w =
     (if form_submitted f then
        if strip (form_query f) = []
        then (None, st (St_warning [Lit ([9888, 65039] @ lit '' Please enter a query.'')]) w)
        else (case search_api base net (form_query f) (form_size f) (form_use_vector f)
                     (form_alpha f) (lit (lang_code l)) (form_use_spelling f) w of
                (Inl e, w1) \<Rightarrow> (Some e, w1)
              | (Inr result, w1) \<Rightarrow>
                  if truthy result
                  then (case render_results l result of
                          (es, r) \<Rightarrow> (r, w1\<lparr>ui := ui w1 @ es\<rparr>))
                  else (None, w1))
      else (None, w))"

record org_form =
  org_search_term :: pystr
  org_size :: int
  org_submitted :: bool

text \<open>One run of the organization tab (lines 335 to 365).\<close>

definition org_tab ::
  "pystr \<Rightarrow> transport \<Rightarrow> org_form \<Rightarrow> world \<Rightarrow> exn option \<times> world" where
  "org_tab base net f w =
     (if org_submitted f then
        if strip (org_search_term f) = []
        then (None,
              st (St_warning [Lit ([9888, 65039] @ lit '' Please enter a search term.'')]) w)
        else (case search_organizations base net (org_search_term f) (org_size f) w of
                (Inl e, w1) \<Rightarrow> (Some e, w1)
              | (Inr result, w1) \<Rightarrow>
                  if truthy result
                  then (case render_org_results result of
                          (es, r) \<Rightarrow> (r, w1\<lparr>ui := ui w1 @ es\<rparr>))
                  else (None, w1))
      else (None, w))"

section \<open>Reading what was drawn\<close>

text \<open>
  The text of an f-string whose values are \<^verbatim>\<open>None\<close>, bools, ints and strings; the text
  Python gives a float, a list, a dict or an exception is not modelled (\<open>None\<close>).
\<close>

fun digits :: "nat \<Rightarrow> pystr" where
  "digits n = (if n < 10 then [48 + n] else digits (n div 10) @ [48 + n mod 10])"

definition show_int :: "int \<Rightarrow> pystr" where
  "show_int n = (if n < 0 then 45 # digits (nat (- n)) else digits (nat n))"

fun py_str :: "json \<Rightarrow> pystr option" where
  "py_str JNull = Some (lit ''None'')"
| "py_str (JBool b) = Some (lit (if b then ''True'' else ''False''))"
| "py_str (JInt n) = Some (show_int n)"
| "py_str (JStr s) = Some s"
| "py_str _ = None"

fun seg_text :: "seg \<Rightarrow> pystr option" where
  "seg_text (Lit s) = Some s"
| "seg_text (Str v) = py_str v"
| "seg_text _ = None"

fun text_of :: "fstring \<Rightarrow> pystr option" where
  "text_of [] = Some []"
| "text_of (x # xs) =
     (case seg_text x of
        None \<Rightarrow> None
      | Some a \<Rightarrow> (case text_of xs of None \<Rightarrow> None | Some b \<Rightarrow> Some (a @ b)))"

text \<open>The titles of the blocks (expanders) among the elements drawn, in order.\<close>

fun titles :: "element list \<Rightarrow> fstring list" where
  "titles [] = []"
| "titles (St_expander t # es) = t # titles es"
| "titles (_ # es) = titles es"

text \<open>
  The conditions under which drawing a record raises nothing: the score is false or
  can be formatted, and the tradings are false or a list of dicts.
\<close>

fun is_dict :: "json \<Rightarrow> bool" where
  "is_dict (JObj _) = True"
| "is_dict _ = False"

definition score_formattable :: "json \<Rightarrow> bool" where
  "score_formattable score \<longleftrightarrow>
     \<not> truthy score \<or> (case fix4 score of Inl _ \<Rightarrow> False | Inr _ \<Rightarrow> True)"

definition tradings_wellformed :: "json \<Rightarrow> bool" where
  "tradings_wellformed tradings \<longleftrightarrow>
     \<not> truthy tradings \<or> (case tradings of JArr ts \<Rightarrow> list_all is_dict ts | _ \<Rightarrow> False)"

text \<open>The keys of a payload, in order.\<close>

fun keys_of :: "json \<Rightarrow> pystr list" where
  "keys_of (JObj kvs) = map fst kvs"
| "keys_of _ = []"

section \<open>Sample inputs\<close>

definition base0 :: pystr where
  "base0 = lit ''https://api.test''"

definition fresh :: world where
  "fresh = \<lparr>calls = [], ui = []\<rparr>"

definition hit_1234 :: json where
  "hit_1234 = JObj [(lit ''code'', JStr (lit ''1234''))]"

definition hit_zero_score :: json where
  "hit_zero_score = JObj [(lit ''code'', JStr (lit ''7601'')), (lit ''_score'', JFloat (Finite 0))]"

definition hit_half_score :: json where
  "hit_half_score =
     JObj [(lit ''code'', JStr (lit ''7601'')), (lit ''_score'', JFloat (Finite (1 / 2)))]"

definition hit_text_score :: json where
  "hit_text_score =
     JObj [(lit ''code'', JStr (lit ''7601'')), (lit ''score'', JStr (lit ''high''))]"

definition one_hit_response :: json where
  "one_hit_response = JObj [(lit ''total-hits'', JInt 1), (lit ''Ranked-objects'', JArr [hit_1234])]"

text \<open>A response with two hits and no \<^verbatim>\<open>total-hits\<close> key.\<close>

definition uncounted_response :: json where
  "uncounted_response = JObj [(lit ''Ranked-objects'', JArr [hit_1234, hit_half_score])]"

text \<open>The search endpoint answers; the spelling endpoint answers 500.\<close>

definition net_spelling_500 :: transport where
  "net_spelling_500 h r =
     (if url r = base0 @ lit ''/spellingcorrection'' then Responds 500 None
      else Responds 200 (Some one_hit_response))"

text \<open>The spelling endpoint answers 200 and gives the query back as it came.\<close>

definition net_spelling_same :: transport where
  "net_spelling_same h r =
     (if url r = base0 @ lit ''/spellingcorrection''
      then Responds 200
             (Some (JObj [(lit ''corrected_query'',
                           (case json_body r of
                              JObj d \<Rightarrow> dict_get d (lit ''query'') JNull
                            | _ \<Rightarrow> JNull))]))
      else Responds 200 (Some one_hit_response))"

text \<open>Every call times out.\<close>

definition net_timeout :: transport where
  "net_timeout h r = Raises Timeout"

text \<open>Every call is answered with the same response.\<close>

definition net_fixed :: transport where
  "net_fixed h r = Responds 200 (Some one_hit_response)"

definition form_alu :: search_form where
  "form_alu =
     \<lparr>form_query = lit ''alu'', form_size = 10, form_alpha = Finite (1 / 2),
      form_use_vector = True, form_use_spelling = True, form_submitted = True\<rparr>"

text \<open>A submitted form whose query is a space, a tab and an ideographic space.\<close>

definition form_blank :: search_form where
  "form_blank =
     \<lparr>form_query = [32, 9, 12288], form_size = 10, form_alpha = Finite (1 / 2),
      form_use_vector = True, form_use_spelling = False, form_submitted = True\<rparr>"

definition org_form_blank :: org_form where
  "org_form_blank = \<lparr>org_search_term = [], org_size = 10, org_submitted = True\<rparr>"

definition hit_named :: json where
  "hit_named =
     JObj [(lit ''_source'',
            JObj [(lit ''name_az_d4'', JStr (lit ''Sheets'')), (lit ''code'', JStr (lit ''7606''))]),
           (lit ''_score'', JFloat (Finite (3 / 4)))]"

definition hit_bare :: json where
  "hit_bare = JObj [(lit ''Path'', JStr (lit ''76/06''))]"

definition hit_no_score :: json where
  "hit_no_score = JObj [(lit ''code'', JStr (lit ''7601''))]"

definition hit_1234_nested :: json where
  "hit_1234_nested = JObj [(lit ''_source'', hit_1234)]"

definition net_spelling_null :: transport where
  "net_spelling_null h r =
     (if url r = base0 @ lit ''/spellingcorrection''
      then Responds 200 (Some (JObj [(lit ''corrected_query'', JNull)]))
      else Responds 200 (Some one_hit_response))"

definition hit_string :: json where
  "hit_string = JStr (lit ''7601'')"

definition hit_null_source :: json where
  "hit_null_source = JObj [(lit ''_source'', JNull)]"

definition form_plain :: search_form where
  "form_plain =
     \<lparr>form_query = lit ''alu'', form_size = 10, form_alpha = Finite (1 / 2),
      form_use_vector = True, form_use_spelling = False, form_submitted = True\<rparr>"

definition org_form_un :: org_form where
  "org_form_un = \<lparr>org_search_term = lit ''UN'', org_size = 10, org_submitted = True\<rparr>"

definition org_un :: json where
  "org_un = JObj [(lit ''name'', JStr (lit ''United Nations'')),
                 (lit ''abbreviation'', JStr (lit ''UN''))]"

definition org_unesco :: json where
  "org_unesco = JObj [(lit ''name'', JStr (lit ''UNESCO'')), (lit ''score'', JFloat (Finite (1 / 4)))]"

definition uncounted_orgs :: json where
  "uncounted_orgs = JObj [(lit ''results'', JArr [org_un, org_unesco])]"

definition broken_response :: json where
  "broken_response = JObj [(lit ''Ranked-objects'', JArr [hit_text_score, hit_1234])]"

definition net_empty_object :: transport where
  "net_empty_object h r = Responds 200 (Some (JObj []))"

definition net_broken :: transport where
  "net_broken h r = Responds 200 (Some broken_response)"

definition net_uncounted :: transport where
  "net_uncounted h r =
     (if url r = base0 @ lit ''/organizations'' then Responds 200 (Some uncounted_orgs)
      else Responds 200 (Some uncounted_response))"

section \<open>Properties\<close>

subsection \<open>Auxiliary facts\<close>

lemma lit_inj [simp]: "lit a = lit b \<longleftrightarrow> a = b"
  unfolding lit_def using inj_of_char by (simp add: inj_map_eq_map inj_on_def)

lemma titles_append: "titles (xs @ ys) = titles xs @ titles ys"
  by (induction xs rule: titles.induct) simp_all

lemma strip_empty_iff: "strip s = [] \<longleftrightarrow> list_all is_space s"
proof
  assume "strip s = []"
  then have all: "\<forall>x\<in>set (dropWhile is_space s). is_space x"
    by (simp add: strip_def dropWhile_eq_Nil_conv)
  have "dropWhile is_space s = []"
  proof (rule ccontr)
    assume ne: "dropWhile is_space s \<noteq> []"
    then have "\<not> is_space (hd (dropWhile is_space s))" by (rule hd_dropWhile)
    moreover have "hd (dropWhile is_space s) \<in> set (dropWhile is_space s)"
      using ne by simp
    ultimately show False using all by blast
  qed
  then show "list_all is_space s"
    by (simp add: dropWhile_eq_Nil_conv list_all_iff)
next
  assume "list_all is_space s"
  then show "strip s = []"
    by (auto simp: strip_def list_all_iff dest: set_dropWhileD)
qed

lemma seqs_raises_nothing: "snd (seqs ds) = None \<longleftrightarrow> (\<forall>d\<in>set ds. snd d = None)"
  by (induction ds) (auto split: option.splits)

lemma titles_score_line: "titles (fst (score_line s)) = []"
  by (simp add: score_line_def split: sum.splits)

lemma titles_render_trading: "titles (fst (render_trading t)) = []"
  by (cases t) (simp_all add: Let_def)

lemma titles_render_tradings: "titles (fst (render_tradings ts)) = []"
  by (induction ts) (simp_all add: titles_append titles_render_trading split: option.splits)

lemma titles_tradings_part: "titles (fst (tradings_part t)) = []"
  by (simp add: tradings_part_def titles_render_tradings split: sum.splits option.splits)

lemma titles_render_source:
  "titles (fst (render_source l i hit source)) =
     [numbered i (dict_get source (name_field l ''4'')
        (dict_get source (lit ''code'') (JStr (lit ''No Name''))))]"
  by (simp add: render_source_def Let_def titles_append titles_score_line titles_tradings_part
      split: option.splits)

lemma snd_render_trading: "snd (render_trading t) = None \<longleftrightarrow> is_dict t"
  by (cases t) (simp_all add: Let_def)

lemma snd_render_tradings: "snd (render_tradings ts) = None \<longleftrightarrow> list_all is_dict ts"
  by (induction ts) (simp_all add: seqs_raises_nothing snd_render_trading del: seqs.simps)

lemma snd_score_line: "snd (score_line s) = None \<longleftrightarrow> score_formattable s"
  by (simp add: score_line_def score_formattable_def split: sum.splits)

lemma keys_not_dicts: "list_all is_dict (map (\<lambda>kv. JStr (fst kv)) kvs) \<longleftrightarrow> kvs = []"
  by (cases kvs) simp_all

lemma chars_not_dicts: "list_all is_dict (map (\<lambda>c. JStr [c]) s) \<longleftrightarrow> s = []"
  by (cases s) simp_all

lemma snd_tradings_part: "snd (tradings_part t) = None \<longleftrightarrow> tradings_wellformed t"
  by (cases t)
    (simp_all add: tradings_part_def tradings_wellformed_def seqs_raises_nothing
       snd_render_tradings keys_not_dicts chars_not_dicts del: seqs.simps)

lemma snd_render_source:
  "snd (render_source l i hit source) = None \<longleftrightarrow>
     score_formattable (hit_score hit source) \<and>
     tradings_wellformed (dict_get source (lit ''tradings'') (JArr []))"
  by (simp add: render_source_def Let_def seqs_raises_nothing snd_score_line snd_tradings_part
      del: seqs.simps)

lemma calls_search_except: "calls (snd (search_except e w)) = calls w"
  by (simp add: search_except_def st_def)

lemma calls_organizations_except: "calls (snd (organizations_except e w)) = calls w"
  by (simp add: organizations_except_def st_def)

lemma search_api_calls:
  "calls (snd (search_api base net query size' use_vector alpha language use_spelling w)) =
     calls (snd (if use_spelling then spelling_step base net query w else (JStr query, w))) @
     [search_request base
        (fst (if use_spelling then spelling_step base net query w else (JStr query, w)))
        size' use_vector alpha language]"
  by (simp add: search_api_def post_def calls_search_except
      split: prod.splits outcome.splits option.splits)

lemma search_organizations_calls:
  "calls (snd (search_organizations base net search_term size' w)) =
     calls w @ [organizations_request base search_term size']"
  by (simp add: search_organizations_def post_def calls_organizations_except
      split: prod.splits outcome.splits option.splits)

lemma lit_Nil [simp]: "lit s = [] \<longleftrightarrow> s = []"
  by (simp add: lit_def)

lemma spelling_step_sim:
  assumes H: "\<forall>h h' r. net h r = net h' r" and U: "ui w = ui w'"
  shows "fst (spelling_step base net query w) = fst (spelling_step base net query w') \<and>
         ui (snd (spelling_step base net query w)) = ui (snd (spelling_step base net query w'))"
proof -
  have "net (calls w) (spelling_request base query) = net (calls w') (spelling_request base query)"
    using H by blast
  then show ?thesis
    using U
    by (simp add: spelling_step_def post_def st_def Let_def
        split: outcome.splits option.splits json.splits)
qed

lemma search_api_sim:
  assumes H: "\<forall>h h' r. net h r = net h' r" and U: "ui w = ui w'"
  shows "fst (search_api base net query size' use_vector alpha language use_spelling w) =
         fst (search_api base net query size' use_vector alpha language use_spelling w') \<and>
         ui (snd (search_api base net query size' use_vector alpha language use_spelling w)) =
         ui (snd (search_api base net query size' use_vector alpha language use_spelling w'))"
proof -
  obtain sq w1 where p: "(if use_spelling then spelling_step base net query w else (JStr query, w))
      = (sq, w1)"
    by (cases "if use_spelling then spelling_step base net query w else (JStr query, w)")
  obtain sq' w1' where p': "(if use_spelling then spelling_step base net query w'
      else (JStr query, w')) = (sq', w1')"
    by (cases "if use_spelling then spelling_step base net query w' else (JStr query, w')")
  have same: "sq = sq' \<and> ui w1 = ui w1'"
  proof (cases use_spelling)
    case True
    with p p' spelling_step_sim [OF H U, of base query] show ?thesis by simp
  next
    case False
    with p p' U show ?thesis by simp
  qed
  have N: "net (calls w1) (search_request base sq' size' use_vector alpha language) =
           net (calls w1') (search_request base sq' size' use_vector alpha language)"
    using H by blast
  show ?thesis
    using same N
    by (simp add: search_api_def p p' post_def search_except_def st_def
        split: outcome.splits option.splits)
qed

lemma titles_render_hit:
  "snd (render_hit l i h) = None \<Longrightarrow> length (titles (fst (render_hit l i h))) = 1"
  by (cases h) (auto simp: titles_render_source split: json.splits)

lemma titles_render_hits:
  "snd (render_hits l i hs) = None \<Longrightarrow> length (titles (fst (render_hits l i hs))) = length hs"
  by (induction hs arbitrary: i)
    (auto simp: titles_append titles_render_hit split: option.splits)

lemma titles_render_org:
  "snd (render_org i org) = None \<Longrightarrow> length (titles (fst (render_org i org))) = 1"
  by (cases org) (auto simp: titles_append titles_score_line split: option.splits)

lemma titles_render_orgs:
  "snd (render_orgs i orgs) = None \<Longrightarrow>
     length (titles (fst (render_orgs i orgs))) = length orgs"
  by (induction orgs arbitrary: i)
    (auto simp: titles_append titles_render_org split: option.splits)

lemma spelling_step_calls:
  "calls (snd (spelling_step base net query w)) = calls w @ [spelling_request base query]"
  by (simp add: spelling_step_def post_def st_def Let_def
      split: outcome.splits option.splits json.splits)

lemma spelling_step_query:
  "fst (spelling_step base net query w) =
     (case net (calls w) (spelling_request base query) of
        Responds status (Some (JObj d)) \<Rightarrow>
          if status = 200 then dict_get d (lit ''corrected_query'') (JStr query) else JStr query
      | _ \<Rightarrow> JStr query)"
  by (simp add: spelling_step_def post_def Let_def
      split: outcome.splits option.splits json.splits)

lemma spelling_exception_warns:
  "(net (calls w) (spelling_request base query) = Raises e \<longrightarrow>
      spelling_step base net query w =
        (JStr query,
         \<lparr>calls = calls w @ [spelling_request base query],
          ui = ui w @ [St_warning [Lit (lit ''Spelling correction unavailable: ''), Exc e]]\<rparr>)) \<and>
   (net (calls w) (spelling_request base query) = Responds 200 None \<longrightarrow>
      spelling_step base net query w =
        (JStr query,
         \<lparr>calls = calls w @ [spelling_request base query],
          ui = ui w @ [St_warning [Lit (lit ''Spelling correction unavailable: ''),
                                   Exc JSONDecodeError]]\<rparr>)) \<and>
   (net (calls w) (spelling_request base query) = Responds 200 (Some v) \<and> \<not> is_dict v \<longrightarrow>
      spelling_step base net query w =
        (JStr query,
         \<lparr>calls = calls w @ [spelling_request base query],
          ui = ui w @ [St_warning [Lit (lit ''Spelling correction unavailable: ''),
                                   Exc AttributeError]]\<rparr>))"
  by (cases v) (simp_all add: spelling_step_def post_def st_def spelling_unavailable_def)

lemma spelling_failure_keeps_raw_query:
  assumes "\<forall>d. net (calls w) (spelling_request base query) \<noteq> Responds 200 (Some (JObj d))"
  shows "fst (spelling_step base net query w) = JStr query \<and>
         calls (snd (search_api base net query size' use_vector alpha language True w)) =
           calls w @ [spelling_request base query,
                      search_request base (JStr query) size' use_vector alpha language]"
proof -
  have "fst (spelling_step base net query w) = JStr query"
    using assms by (simp add: spelling_step_query split: outcome.splits option.splits json.splits)
  then show ?thesis by (simp add: search_api_calls spelling_step_calls)
qed

lemma seqs_single: "seqs [d] = d"
  by (cases d) (simp split: option.splits)

lemma seqs_skip: "seqs (([], None) # ds) = seqs ds"
  by simp

lemma seqs_pair_fst: "snd a = None \<Longrightarrow> fst (seqs [a, b]) = fst a @ fst b"
  by (cases b) (simp split: option.splits)

lemma seqs_assoc: "seqs [a, seqs [b, c]] = seqs [seqs [a, b], c]"
  by (cases a; cases b; cases c) (simp split: option.splits)

lemma seqs_starts: "\<exists>more. fst (seqs (a # ds)) = fst a @ more"
  by (cases "snd a") auto

lemma render_hits_append:
  "render_hits l i (xs @ ys) = seqs [render_hits l i xs, render_hits l (i + length xs) ys]"
proof (induction xs arbitrary: i)
  case Nil
  show ?case by (simp add: seqs_skip seqs_single del: seqs.simps)
next
  case (Cons x xs)
  have "render_hits l i ((x # xs) @ ys) =
          seqs [render_hit l i x, seqs [render_hits l (Suc i) xs,
                                        render_hits l (Suc i + length xs) ys]]"
    using Cons.IH [of "Suc i"] by (simp del: seqs.simps)
  also have "\<dots> = seqs [seqs [render_hit l i x, render_hits l (Suc i) xs],
                         render_hits l (Suc i + length xs) ys]"
    by (rule seqs_assoc)
  finally show ?case by (simp del: seqs.simps)
qed

lemma render_source_starts:
  "\<exists>rest. fst (render_source l i hit source) =
     St_expander (numbered i (dict_get source (name_field l ''4'')
        (dict_get source (lit ''code'') (JStr (lit ''No Name''))))) # rest"
  by (simp add: render_source_def Let_def split: option.splits)

text \<open>
  What a tab does with a response that \<^verbatim>\<open>raise_for_status\<close> lets pass: it draws the
  result when the result is true, and nothing when it is false.
\<close>

lemma strip_alu: "strip (lit ''alu'') \<noteq> []"
  by (simp add: strip_empty_iff lit_def is_space_def)

lemma strip_UN: "strip (lit ''UN'') \<noteq> []"
  by (simp add: strip_empty_iff lit_def is_space_def)

lemma search_tab_on_response:
  assumes "form_submitted f" and "strip (form_query f) \<noteq> []"
    and "(if form_use_spelling f then spelling_step base net (form_query f) w
          else (JStr (form_query f), w)) = (sq, w1)"
    and "net (calls w1) (search_request base sq (form_size f) (form_use_vector f) (form_alpha f)
           (lit (lang_code l))) = Responds status (Some result)"
    and "\<not> raise_for_status status"
  shows "search_tab base net l f w =
           (if truthy result
            then (snd (render_results l result),
                  \<lparr>calls = calls w1 @ [search_request base sq (form_size f) (form_use_vector f)
                                        (form_alpha f) (lit (lang_code l))],
                   ui = ui w1 @ fst (render_results l result)\<rparr>)
            else (None,
                  \<lparr>calls = calls w1 @ [search_request base sq (form_size f) (form_use_vector f)
                                        (form_alpha f) (lit (lang_code l))],
                   ui = ui w1\<rparr>))"
  using assms by (simp add: search_tab_def search_api_def post_def split: prod.splits)

lemma org_tab_on_response:
  assumes "org_submitted g" and "strip (org_search_term g) \<noteq> []"
    and "net (calls w) (organizations_request base (org_search_term g) (org_size g)) =
           Responds status (Some result)"
    and "\<not> raise_for_status status"
  shows "org_tab base net g w =
           (if truthy result
            then (snd (render_org_results result),
                  \<lparr>calls = calls w @ [organizations_request base (org_search_term g) (org_size g)],
                   ui = ui w @ fst (render_org_results result)\<rparr>)
            else (None,
                  \<lparr>calls = calls w @ [organizations_request base (org_search_term g) (org_size g)],
                   ui = ui w\<rparr>))"
  using assms by (simp add: org_tab_def search_organizations_def post_def split: prod.splits)

lemma titles_render_hit_le: "length (titles (fst (render_hit l i h))) \<le> 1"
  by (cases h) (auto simp: titles_render_source split: json.splits)

lemma titles_render_hits_le: "length (titles (fst (render_hits l i hs))) \<le> length hs"
proof (induction hs arbitrary: i)
  case Nil
  show ?case by simp
next
  case (Cons h hs)
  show ?case
    using titles_render_hit_le [of l i h] Cons.IH [of "Suc i"]
    by (auto simp: titles_append split: option.splits)
qed

lemma titles_render_org_le: "length (titles (fst (render_org i org))) \<le> 1"
  by (cases org) (auto simp: titles_append titles_score_line split: option.splits)

lemma titles_render_orgs_le: "length (titles (fst (render_orgs i orgs))) \<le> length orgs"
proof (induction orgs arbitrary: i)
  case Nil
  show ?case by simp
next
  case (Cons org orgs)
  show ?case
    using titles_render_org_le [of i org] Cons.IH [of "Suc i"]
    by (auto simp: titles_append simp del: render_org.simps split: option.splits)
qed

lemma render_results_banner:
  "render_results l (JObj r) =
     seqs [([St_success [Lit (9989 # lit '' Found ''),
                         Str (dict_get r (lit ''total-hits'') (JInt 0)), Lit (lit '' hits'')]], None),
           (if \<not> truthy (dict_get r (lit ''Ranked-objects'') (JArr []))
            then ([St_info [Lit (lit ''No results found.'')]], None)
            else (case py_iter (dict_get r (lit ''Ranked-objects'') (JArr [])) of
                    Inl e \<Rightarrow> ([], Some e)
                  | Inr hs \<Rightarrow> render_hits l 1 hs))]"
  by (simp add: render_results_def Let_def del: seqs.simps)

subsection \<open>The query pipeline\<close>

text \<open>
  C1. The claim fails on a status other than 200. The spelling endpoint answers 500:
  the raw query is kept and the search call is made with it, as the claim says, but
  nothing at all is drawn, so the warning the claim promises is missing. The paths that
  raise an exception do draw it (\<open>spelling_exception_warns\<close>), and every failure keeps
  the raw query (\<open>spelling_failure_keeps_raw_query\<close>).
\<close>

theorem spelling_500_draws_no_warning:
  "search_api base0 net_spelling_500 (lit ''alu'') 10 True (Finite (1 / 2)) (lit ''az'') True fresh =
     (Inr one_hit_response,
      \<lparr>calls = [spelling_request base0 (lit ''alu''),
                search_request base0 (JStr (lit ''alu'')) 10 True (Finite (1 / 2)) (lit ''az'')],
       ui = []\<rparr>)"
  by code_simp

text \<open>
  C7. With spelling correction enabled, when the spelling endpoint answers 200 with a
  corrected query identical to the raw query, the spelling step makes its one call and
  draws nothing (no correction note), and the search call that follows carries the raw
  query unchanged.
\<close>

theorem identical_correction_is_noop:
  assumes "net (calls w) (spelling_request base query) = Responds 200 (Some (JObj spell_data))"
    and "map_of spell_data (lit ''corrected_query'') = Some (JStr query)"
  shows "spelling_step base net query w =
           (JStr query, \<lparr>calls = calls w @ [spelling_request base query], ui = ui w\<rparr>) \<and>
         calls (snd (search_api base net query size' use_vector alpha language True w)) =
           calls w @ [spelling_request base query,
                      search_request base (JStr query) size' use_vector alpha language]"
proof -
  have step: "spelling_step base net query w =
           (JStr query, \<lparr>calls = calls w @ [spelling_request base query], ui = ui w\<rparr>)"
    using assms by (simp add: spelling_step_def post_def dict_get_def)
  then show ?thesis by (simp add: search_api_calls)
qed

theorem identical_correction_is_noop_witness:
  "spelling_step base0 net_spelling_same (lit ''alu'') fresh =
     (JStr (lit ''alu''), \<lparr>calls = [spelling_request base0 (lit ''alu'')], ui = []\<rparr>) \<and>
   calls (snd (search_api base0 net_spelling_same (lit ''alu'') 10 True (Finite (1 / 2)) (lit ''az'')
                 True fresh)) =
     [spelling_request base0 (lit ''alu''),
      search_request base0 (JStr (lit ''alu'')) 10 True (Finite (1 / 2)) (lit ''az'')]"
proof -
  have r: "net_spelling_same (calls fresh) (spelling_request base0 (lit ''alu'')) =
             Responds 200 (Some (JObj [(lit ''corrected_query'', JStr (lit ''alu''))]))"
    by (simp add: net_spelling_same_def spelling_request_def dict_get_def)
  have k: "map_of [(lit ''corrected_query'', JStr (lit ''alu''))] (lit ''corrected_query'') =
             Some (JStr (lit ''alu''))"
    by simp
  show ?thesis
    using identical_correction_is_noop [of net_spelling_same fresh base0 "lit ''alu''"
        "[(lit ''corrected_query'', JStr (lit ''alu''))]" 10 True "Finite (1 / 2)" "lit ''az''"] r k
    by (simp add: fresh_def)
qed

subsection \<open>The payloads\<close>

text \<open>
  C5, as stated, fails on the names of the keys and, with spelling correction on, on the
  type of the query: the search payload has the key \<^verbatim>\<open>use_vector\<close> and none named
  \<^verbatim>\<open>useVector\<close>, the organization payload has \<^verbatim>\<open>search_term\<close> and none named
  \<^verbatim>\<open>searchTerm\<close>, and when the spelling endpoint answers \<^verbatim>\<open>{"corrected_query": null}\<close>
  the query that is sent is \<^verbatim>\<open>null\<close>, not a string.
\<close>

theorem wire_keys_are_snake_case:
  "keys_of (json_body (last (calls (snd (search_api base0 net_fixed (lit ''alu'') 10 True
       (Finite (1 / 2)) (lit ''az'') False fresh))))) =
     [lit ''query'', lit ''size'', lit ''alpha'', lit ''use_vector''] \<and>
   lit ''useVector'' \<notin> set (keys_of (json_body (last (calls (snd (search_api base0 net_fixed
       (lit ''alu'') 10 True (Finite (1 / 2)) (lit ''az'') False fresh)))))) \<and>
   keys_of (json_body (last (calls (snd (search_organizations base0 net_fixed (lit ''UN'') 10
       fresh))))) =
     [lit ''search_term'', lit ''index'', lit ''size''] \<and>
   lit ''searchTerm'' \<notin> set (keys_of (json_body (last (calls (snd (search_organizations base0
       net_fixed (lit ''UN'') 10 fresh)))))) \<and>
   json_body (last (calls (snd (search_api base0 net_spelling_null (lit ''alu'') 10 True
       (Finite (1 / 2)) (lit ''az'') True fresh)))) =
     JObj [(lit ''query'', JNull), (lit ''size'', JInt 10), (lit ''alpha'', JFloat (Finite (1 / 2))),
           (lit ''use_vector'', JBool True)]"
  by (simp add: search_api_calls search_organizations_calls search_request_def
      organizations_request_def spelling_step_query net_spelling_null_def spelling_request_def
      fresh_def dict_get_def)

text \<open>
  C5, amended. The search call goes to \<^verbatim>\<open>/search/{language}\<close> with the payload
  \<^verbatim>\<open>{query, size, alpha, use_vector}\<close>, in this order: the size is the int, the alpha the
  float and \<^verbatim>\<open>use_vector\<close> the bool of the request. With spelling correction off the
  query is the string of the request. With spelling correction on, the spelling call
  \<^verbatim>\<open>{query}\<close> is made first, and the query of the search payload is the value under
  \<^verbatim>\<open>corrected_query\<close> of a 200 answer that is an object, whatever its JSON type (the
  string of the request when the object has no such key), and the string of the request
  after every other answer. The organization call goes to \<^verbatim>\<open>/organizations\<close> with the
  payload \<^verbatim>\<open>{search_term, index, size}\<close>: the term a string, the index the constant
  \<^verbatim>\<open>organizations_v3\<close>, the size an int.
\<close>

theorem payloads_sent:
  "calls (snd (search_api base net query size' use_vector alpha language False w)) =
     calls w @
     [\<lparr>url = base @ lit ''/search/'' @ language,
       json_body = JObj [(lit ''query'', JStr query), (lit ''size'', JInt size'),
                         (lit ''alpha'', JFloat alpha), (lit ''use_vector'', JBool use_vector)],
       headers = [(lit ''Content-Type'', lit ''application/json'')], timeout = 30\<rparr>] \<and>
   calls (snd (search_api base net query size' use_vector alpha language True w)) =
     calls w @
     [\<lparr>url = base @ lit ''/spellingcorrection'',
       json_body = JObj [(lit ''query'', JStr query)],
       headers = [(lit ''Content-Type'', lit ''application/json'')], timeout = 10\<rparr>,
      \<lparr>url = base @ lit ''/search/'' @ language,
       json_body =
         JObj [(lit ''query'',
                (case net (calls w) (spelling_request base query) of
                   Responds status (Some (JObj d)) \<Rightarrow>
                     if status = 200 then dict_get d (lit ''corrected_query'') (JStr query)
                     else JStr query
                 | _ \<Rightarrow> JStr query)),
               (lit ''size'', JInt size'), (lit ''alpha'', JFloat alpha),
               (lit ''use_vector'', JBool use_vector)],
       headers = [(lit ''Content-Type'', lit ''application/json'')], timeout = 30\<rparr>] \<and>
   calls (snd (search_organizations base net search_term size' w)) =
     calls w @
     [\<lparr>url = base @ lit ''/organizations'',
       json_body = JObj [(lit ''search_term'', JStr search_term),
                         (lit ''index'', JStr (lit ''organizations_v3'')),
                         (lit ''size'', JInt size')],
       headers = [(lit ''Content-Type'', lit ''application/json'')], timeout = 30\<rparr>]"
  by (simp add: search_api_calls search_organizations_calls search_request_def
      organizations_request_def json_headers_def spelling_step_calls spelling_step_query
      spelling_request_def)

theorem payloads_sent_witness:
  "calls (snd (search_api base0 net_spelling_same (lit ''alu'') 10 True (Finite (1 / 2))
       (lit ''az'') True fresh)) =
     [\<lparr>url = base0 @ lit ''/spellingcorrection'',
       json_body = JObj [(lit ''query'', JStr (lit ''alu''))],
       headers = [(lit ''Content-Type'', lit ''application/json'')], timeout = 10\<rparr>,
      \<lparr>url = base0 @ lit ''/search/az'',
       json_body = JObj [(lit ''query'', JStr (lit ''alu'')), (lit ''size'', JInt 10),
                         (lit ''alpha'', JFloat (Finite (1 / 2))), (lit ''use_vector'', JBool True)],
       headers = [(lit ''Content-Type'', lit ''application/json'')], timeout = 30\<rparr>]"
  using payloads_sent [where base = base0 and net = net_spelling_same and query = "lit ''alu''"
      and size' = 10 and use_vector = True and alpha = "Finite (1 / 2)"
      and language = "lit ''az''" and w = fresh and search_term = "[]"]
  by (simp add: fresh_def net_spelling_same_def spelling_request_def dict_get_def)
    (simp add: lit_def)

subsection \<open>Errors of the transport\<close>

text \<open>
  C4. The organization search does not have the error taxonomy of the product search:
  when the call times out, \<^verbatim>\<open>search_organizations\<close> draws the generic
  "Request failed" message, where \<^verbatim>\<open>search_api\<close> draws "Request timed out".
\<close>

theorem organizations_timeout_is_generic_failure:
  "search_organizations base0 net_timeout (lit ''UN'') 10 fresh =
     (Inr JNull,
      \<lparr>calls = [organizations_request base0 (lit ''UN'') 10],
       ui = [St_error [Lit (10060 # lit '' Request failed: ''), Exc Timeout]]\<rparr>) \<and>
   search_api base0 net_timeout (lit ''alu'') 10 True (Finite (1 / 2)) (lit ''az'') False fresh =
     (Inr JNull,
      \<lparr>calls = [search_request base0 (JStr (lit ''alu'')) 10 True (Finite (1 / 2)) (lit ''az'')],
       ui = [St_error [Lit ([9201, 65039] @ lit '' Request timed out. Please try again.'')]]\<rparr>)"
  by (simp add: search_organizations_def search_api_def post_def net_timeout_def
      organizations_except_def search_except_def st_def fresh_def)

subsection \<open>Blank input\<close>

text \<open>
  C6. A submitted form whose query (or search term) is empty or consists of whitespace
  only makes no HTTP call: the calls are those made before, and the one element drawn
  is the warning.
\<close>

theorem blank_input_sends_nothing:
  "(form_submitted f \<and> list_all is_space (form_query f) \<longrightarrow>
      search_tab base net l f w =
        (None, \<lparr>calls = calls w,
                ui = ui w @ [St_warning [Lit ([9888, 65039] @ lit '' Please enter a query.'')]]\<rparr>)) \<and>
   (org_submitted g \<and> list_all is_space (org_search_term g) \<longrightarrow>
      org_tab base net g w =
        (None, \<lparr>calls = calls w,
                ui = ui w @ [St_warning [Lit ([9888, 65039] @ lit '' Please enter a search term.'')]]\<rparr>))"
  by (simp add: search_tab_def org_tab_def strip_empty_iff st_def)

theorem blank_input_sends_nothing_witness:
  "search_tab base0 net_fixed Az form_blank fresh =
     (None, \<lparr>calls = [],
             ui = [St_warning [Lit ([9888, 65039] @ lit '' Please enter a query.'')]]\<rparr>) \<and>
   org_tab base0 net_fixed org_form_blank fresh =
     (None, \<lparr>calls = [],
             ui = [St_warning [Lit ([9888, 65039] @ lit '' Please enter a search term.'')]]\<rparr>)"
proof -
  have a: "form_submitted form_blank \<and> list_all is_space (form_query form_blank)"
    by (simp add: form_blank_def is_space_def)
  have b: "org_submitted org_form_blank \<and> list_all is_space (org_search_term org_form_blank)"
    by (simp add: org_form_blank_def)
  show ?thesis
    using blank_input_sends_nothing [of form_blank base0 net_fixed Az fresh org_form_blank] a b
    by (simp add: fresh_def)
qed

subsection \<open>The blocks of the product hits\<close>

text \<open>
  C2, as stated, fails on the title: the hit that carries only the code 1234 is
  titled "#1 - 1234" at position 1, not "1234".
\<close>

theorem title_carries_position:
  "map text_of (titles (fst (render_hit Az 1 hit_1234))) = [Some (lit ''#1 - 1234'')] \<and>
   lit ''#1 - 1234'' \<noteq> lit ''1234''"
  by (simp add: hit_1234_def titles_render_source numbered_def dict_get_def name_field_def
      show_int_def) (simp add: lit_def)

text \<open>
  C2, amended. The title of the block of a hit is "#", the position of the hit, " - "
  and a name: the depth-4 name field of the active language when the record has that
  key, else the code of the record when it has that key, else the text "No Name".
\<close>

theorem block_title_fallback:
  assumes "dict_get hit (lit ''_source'') (JObj hit) = JObj source"
  shows
   "(map_of source (name_field l ''4'') = Some name \<longrightarrow>
       titles (fst (render_hit l i (JObj hit))) =
         [[Lit (lit ''#''), Str (JInt (int i)), Lit (lit '' - ''), Str name]]) \<and>
    (map_of source (name_field l ''4'') = None \<and> map_of source (lit ''code'') = Some code \<longrightarrow>
       titles (fst (render_hit l i (JObj hit))) =
         [[Lit (lit ''#''), Str (JInt (int i)), Lit (lit '' - ''), Str code]]) \<and>
    (map_of source (name_field l ''4'') = None \<and> map_of source (lit ''code'') = None \<longrightarrow>
       titles (fst (render_hit l i (JObj hit))) =
         [[Lit (lit ''#''), Str (JInt (int i)), Lit (lit '' - ''), Str (JStr (lit ''No Name''))]])"
  using assms by (simp add: titles_render_source numbered_def dict_get_def)

theorem block_title_fallback_witness:
  "titles (fst (render_hit Az 1 hit_named)) =
     [[Lit (lit ''#''), Str (JInt 1), Lit (lit '' - ''), Str (JStr (lit ''Sheets''))]] \<and>
   titles (fst (render_hit Az 1 hit_1234)) =
     [[Lit (lit ''#''), Str (JInt 1), Lit (lit '' - ''), Str (JStr (lit ''1234''))]] \<and>
   titles (fst (render_hit Az 1 hit_bare)) =
     [[Lit (lit ''#''), Str (JInt 1), Lit (lit '' - ''), Str (JStr (lit ''No Name''))]]"
proof -
  have a: "dict_get [(lit ''_source'',
            JObj [(lit ''name_az_d4'', JStr (lit ''Sheets'')), (lit ''code'', JStr (lit ''7606''))]),
           (lit ''_score'', JFloat (Finite (3 / 4)))] (lit ''_source'') (JObj [(lit ''_source'',
            JObj [(lit ''name_az_d4'', JStr (lit ''Sheets'')), (lit ''code'', JStr (lit ''7606''))]),
           (lit ''_score'', JFloat (Finite (3 / 4)))]) =
           JObj [(lit ''name_az_d4'', JStr (lit ''Sheets'')), (lit ''code'', JStr (lit ''7606''))]"
    by (simp add: dict_get_def)
  have b: "dict_get [(lit ''code'', JStr (lit ''1234''))] (lit ''_source'')
             (JObj [(lit ''code'', JStr (lit ''1234''))]) = JObj [(lit ''code'', JStr (lit ''1234''))]"
    by (simp add: dict_get_def)
  have c: "dict_get [(lit ''Path'', JStr (lit ''76/06''))] (lit ''_source'')
             (JObj [(lit ''Path'', JStr (lit ''76/06''))]) = JObj [(lit ''Path'', JStr (lit ''76/06''))]"
    by (simp add: dict_get_def)
  show ?thesis
    using block_title_fallback [OF a, of Az "JStr (lit ''Sheets'')" 1]
      block_title_fallback [OF b, of Az _ 1 "JStr (lit ''1234'')"]
      block_title_fallback [OF c, of Az _ 1]
    by (simp add: hit_named_def hit_1234_def hit_bare_def name_field_def)
qed

text \<open>
  C3. A score that is present and equal to 0.0 is not shown: the hit with
  \<^verbatim>\<open>_score\<close> 0.5 gets its score line, the hit with \<^verbatim>\<open>_score\<close> 0.0 is drawn exactly as the
  hit without any score is.
\<close>

theorem zero_score_is_drawn_as_no_score:
  "St_markdown [Lit (lit ''**Score:** ''), Fix4 (JFloat (Finite (1 / 2)))]
     \<in> set (fst (render_hit Az 1 hit_half_score)) \<and>
   render_hit Az 1 hit_zero_score = render_hit Az 1 hit_no_score \<and>
   St_markdown [Lit (lit ''**Score:** ''), Fix4 (JFloat (Finite 0))]
     \<notin> set (fst (render_hit Az 1 hit_zero_score))"
  by (simp add: hit_half_score_def hit_zero_score_def hit_no_score_def render_source_def
      hit_score_def py_or_def dict_get_def score_line_def numbered_def tradings_part_def
      name_field_def na_def)

text \<open>
  C9, as stated, fails on its last part: a hit that is not an object (here a string),
  and a hit whose \<^verbatim>\<open>_source\<close> is not an object (here \<^verbatim>\<open>null\<close>), have no \<^verbatim>\<open>.get\<close>; nothing
  of them is drawn and the \<^verbatim>\<open>AttributeError\<close> ends the loop, so that the flat hit that
  comes after the string is skipped too.
\<close>

theorem non_object_hit_stops_rendering:
  "render_hit Az 1 hit_string = ([], Some AttributeError) \<and>
   render_hit Az 1 hit_null_source = ([], Some AttributeError) \<and>
   render_hits Az 1 [hit_string, hit_1234] = ([], Some AttributeError)"
  by (simp add: hit_string_def hit_null_source_def dict_get_def)

text \<open>
  C9, amended. A hit that is an object without the key \<^verbatim>\<open>_source\<close> is itself the record
  that is drawn, and it is drawn exactly as every nested hit that carries it under
  \<^verbatim>\<open>_source\<close> with the same \<^verbatim>\<open>_score\<close>, alone and at every position of the list of
  hits. When no earlier hit of the list has raised, the title of its block is drawn.
  Drawing it raises nothing exactly when its score is false or can be formatted and its
  tradings are false or a list of objects. A hit that is not an object, and a hit whose
  \<^verbatim>\<open>_source\<close> is not an object, raise \<^verbatim>\<open>AttributeError\<close> before anything of them is drawn.
\<close>

theorem flat_hit_is_its_own_record:
  assumes "map_of hit (lit ''_source'') = None"
  shows
    "render_hit l i (JObj hit) = render_source l i hit hit \<and>
     (map_of nested (lit ''_source'') = Some (JObj hit) \<and>
      dict_get nested (lit ''_score'') JNull = dict_get hit (lit ''_score'') JNull \<longrightarrow>
        render_hit l i (JObj nested) = render_hit l i (JObj hit) \<and>
        render_hits l i (earlier @ JObj nested # later) = render_hits l i (earlier @ JObj hit # later)) \<and>
     (snd (render_hits l i earlier) = None \<longrightarrow>
        (\<exists>rest. fst (render_hits l i (earlier @ JObj hit # later)) =
           fst (render_hits l i earlier) @
           St_expander [Lit (lit ''#''), Str (JInt (int (i + length earlier))), Lit (lit '' - ''),
                        Str (dict_get hit (name_field l ''4'')
                               (dict_get hit (lit ''code'') (JStr (lit ''No Name''))))] # rest)) \<and>
     (snd (render_hit l i (JObj hit)) = None \<longleftrightarrow>
        score_formattable (hit_score hit hit) \<and>
        tradings_wellformed (dict_get hit (lit ''tradings'') (JArr []))) \<and>
     (\<not> is_dict h \<longrightarrow> render_hit l i h = ([], Some AttributeError)) \<and>
     (map_of other (lit ''_source'') = Some s \<and> \<not> is_dict s \<longrightarrow>
        render_hit l i (JObj other) = ([], Some AttributeError))"
proof -
  have own: "render_hit l j (JObj hit) = render_source l j hit hit" for j
    using assms by (simp add: dict_get_def)
  have nested: "render_hit l j (JObj nested) = render_hit l j (JObj hit)"
    if "map_of nested (lit ''_source'') = Some (JObj hit)"
      and "dict_get nested (lit ''_score'') JNull = dict_get hit (lit ''_score'') JNull" for j
  proof -
    have "render_hit l j (JObj nested) = render_source l j nested hit"
      using that(1) by (simp add: dict_get_def)
    also have "\<dots> = render_source l j hit hit"
      using that(2) by (simp add: render_source_def hit_score_def)
    finally show ?thesis using own by simp
  qed
  have loop: "render_hits l i (earlier @ JObj nested # later) = render_hits l i (earlier @ JObj hit # later)"
    if "map_of nested (lit ''_source'') = Some (JObj hit)"
      and "dict_get nested (lit ''_score'') JNull = dict_get hit (lit ''_score'') JNull"
    using nested [OF that] by (simp add: render_hits_append del: seqs.simps render_hit.simps)
  have reached: "\<exists>rest. fst (render_hits l i (earlier @ JObj hit # later)) =
           fst (render_hits l i earlier) @
           St_expander [Lit (lit ''#''), Str (JInt (int (i + length earlier))), Lit (lit '' - ''),
                        Str (dict_get hit (name_field l ''4'')
                               (dict_get hit (lit ''code'') (JStr (lit ''No Name''))))] # rest"
    if ok: "snd (render_hits l i earlier) = None"
  proof -
    obtain r1 where r1: "fst (render_source l (i + length earlier) hit hit) =
        St_expander (numbered (i + length earlier) (dict_get hit (name_field l ''4'')
          (dict_get hit (lit ''code'') (JStr (lit ''No Name''))))) # r1"
      using render_source_starts by blast
    obtain more where more: "fst (seqs (render_hit l (i + length earlier) (JObj hit)
        # [render_hits l (Suc (i + length earlier)) later])) =
        fst (render_hit l (i + length earlier) (JObj hit)) @ more"
      using seqs_starts by blast
    have "fst (render_hits l i (earlier @ JObj hit # later)) =
        fst (render_hits l i earlier) @ fst (render_hits l (i + length earlier) (JObj hit # later))"
      using ok by (simp add: render_hits_append seqs_pair_fst del: render_hits.simps seqs.simps)
    also have "fst (render_hits l (i + length earlier) (JObj hit # later)) =
        fst (render_hit l (i + length earlier) (JObj hit)) @ more"
      using more by (simp del: seqs.simps render_hit.simps)
    finally show ?thesis
      using r1 by (simp add: own numbered_def del: render_hit.simps)
  qed
  have nd: "render_hit l i h = ([], Some AttributeError)" if "\<not> is_dict h"
    using that by (cases h) simp_all
  have ns: "render_hit l i (JObj other) = ([], Some AttributeError)"
    if "map_of other (lit ''_source'') = Some s" and "\<not> is_dict s"
    using that by (cases s) (simp_all add: dict_get_def)
  show ?thesis
    using own nested loop reached nd ns
    by (simp add: snd_render_source del: render_hit.simps render_hits.simps)
qed

theorem flat_hit_is_its_own_record_witness:
  "render_hit Az 1 hit_1234_nested = render_hit Az 1 hit_1234 \<and>
   render_hits Az 1 [hit_half_score, hit_1234_nested] =
     render_hits Az 1 [hit_half_score, hit_1234] \<and>
   snd (render_hit Az 1 hit_1234) = None \<and>
   render_hit Az 1 hit_string = ([], Some AttributeError)"
proof -
  have a: "map_of [(lit ''code'', JStr (lit ''1234''))] (lit ''_source'') = None"
    by simp
  have b: "map_of [(lit ''_source'', JObj [(lit ''code'', JStr (lit ''1234''))])] (lit ''_source'')
             = Some (JObj [(lit ''code'', JStr (lit ''1234''))]) \<and>
           dict_get [(lit ''_source'', JObj [(lit ''code'', JStr (lit ''1234''))])] (lit ''_score'')
             JNull = dict_get [(lit ''code'', JStr (lit ''1234''))] (lit ''_score'') JNull"
    by (simp add: dict_get_def)
  have c: "score_formattable (hit_score [(lit ''code'', JStr (lit ''1234''))]
             [(lit ''code'', JStr (lit ''1234''))]) \<and>
           tradings_wellformed (dict_get [(lit ''code'', JStr (lit ''1234''))] (lit ''tradings'')
             (JArr []))"
    by (simp add: score_formattable_def tradings_wellformed_def hit_score_def py_or_def
        dict_get_def)
  have d: "\<not> is_dict hit_string" by (simp add: hit_string_def)
  note T = flat_hit_is_its_own_record [OF a, where l = Az and i = 1
      and nested = "[(lit ''_source'', JObj [(lit ''code'', JStr (lit ''1234''))])]"
      and earlier = "[hit_half_score]" and later = "[]" and h = hit_string]
  from T b have e1: "render_hit Az 1 (JObj [(lit ''_source'', JObj [(lit ''code'', JStr (lit ''1234''))])])
      = render_hit Az 1 (JObj [(lit ''code'', JStr (lit ''1234''))])"
    by blast
  from T b have e2: "render_hits Az 1 ([hit_half_score] @
        JObj [(lit ''_source'', JObj [(lit ''code'', JStr (lit ''1234''))])] # []) =
      render_hits Az 1 ([hit_half_score] @ JObj [(lit ''code'', JStr (lit ''1234''))] # [])"
    by blast
  from T c have e3: "snd (render_hit Az 1 (JObj [(lit ''code'', JStr (lit ''1234''))])) = None"
    by blast
  from T d have e4: "render_hit Az 1 hit_string = ([], Some AttributeError)"
    by blast
  show ?thesis
  proof (intro conjI)
    show "render_hit Az 1 hit_1234_nested = render_hit Az 1 hit_1234"
      using e1 by (simp only: hit_1234_nested_def hit_1234_def)
    show "render_hits Az 1 [hit_half_score, hit_1234_nested] =
        render_hits Az 1 [hit_half_score, hit_1234]"
      using e2 by (simp only: hit_1234_nested_def hit_1234_def append.simps)
    show "snd (render_hit Az 1 hit_1234) = None"
      using e3 by (simp only: hit_1234_def)
    show "render_hit Az 1 hit_string = ([], Some AttributeError)"
      by (rule e4)
  qed
qed

subsection \<open>The banner\<close>

text \<open>
  C10, as stated, fails for two responses with a 2xx status. The body \<^verbatim>\<open>{}\<close> is false,
  so neither tab draws a banner for it. A body with two hits and no \<^verbatim>\<open>total-hits\<close> whose
  first hit raises gets the banner "Found 0 hits" and one block, not one block per hit.
\<close>

theorem empty_body_draws_no_banner:
  "search_tab base0 net_empty_object Az form_plain fresh =
     (None,
      \<lparr>calls = [search_request base0 (JStr (lit ''alu'')) 10 True (Finite (1 / 2)) (lit ''az'')],
       ui = []\<rparr>) \<and>
   org_tab base0 net_empty_object org_form_un fresh =
     (None, \<lparr>calls = [organizations_request base0 (lit ''UN'') 10], ui = []\<rparr>) \<and>
   search_tab base0 net_broken Az form_plain fresh =
     (Some ValueError,
      \<lparr>calls = [search_request base0 (JStr (lit ''alu'')) 10 True (Finite (1 / 2)) (lit ''az'')],
       ui = [St_success [Lit (9989 # lit '' Found ''), Str (JInt 0), Lit (lit '' hits'')],
             St_expander [Lit (lit ''#''), Str (JInt 1), Lit (lit '' - ''), Str (JStr (lit ''7601''))],
             St_markdown [Lit (lit ''**Code:** `''), Str (JStr (lit ''7601'')),
                          Lit (lit ''`'')]]\<rparr>)"
  using strip_alu strip_UN
  by (simp add: search_tab_def org_tab_def search_api_def search_organizations_def post_def
        form_plain_def org_form_un_def net_empty_object_def net_broken_def fresh_def
        raise_for_status_def render_results_def broken_response_def
        hit_text_score_def hit_1234_def render_source_def hit_score_def py_or_def dict_get_def
        score_line_def numbered_def name_field_def na_def)

text \<open>
  C10, amended. For a response that \<^verbatim>\<open>raise_for_status\<close> lets pass (every 2xx response),
  a tab draws nothing when the body is false, such as \<^verbatim>\<open>{}\<close>. When the body is a
  non-empty object, the success banner is the first element drawn for it, and its count
  is the value under \<^verbatim>\<open>total-hits\<close>, and 0 when the object has no such key, whatever
  the list of results is. A body with a non-empty list of hits and without \<^verbatim>\<open>total-hits\<close>
  gets the banner "Found 0 hits" ("Found 0 organizations" in the organization tab),
  followed by what the loop over the hits draws: never more blocks than hits, and one
  block per hit when no hit raises.
\<close>

theorem banner_reads_total_hits:
  "(form_submitted f \<and> strip (form_query f) \<noteq> [] \<and>
    (if form_use_spelling f then spelling_step base net (form_query f) w
     else (JStr (form_query f), w)) = (sq, w1) \<and>
    net (calls w1) (search_request base sq (form_size f) (form_use_vector f) (form_alpha f)
      (lit (lang_code l))) = Responds status (Some result) \<and>
    \<not> raise_for_status status \<longrightarrow>
      (\<not> truthy result \<longrightarrow> ui (snd (search_tab base net l f w)) = ui w1) \<and>
      (result = JObj r \<and> r \<noteq> [] \<longrightarrow>
         (\<exists>rest. ui (snd (search_tab base net l f w)) =
            ui w1 @ St_success [Lit (9989 # lit '' Found ''),
                                Str (dict_get r (lit ''total-hits'') (JInt 0)),
                                Lit (lit '' hits'')] # rest)) \<and>
      (result = JObj r \<and> map_of r (lit ''total-hits'') = None \<and>
       map_of r (lit ''Ranked-objects'') = Some (JArr hits) \<and> hits \<noteq> [] \<longrightarrow>
         ui (snd (search_tab base net l f w)) =
           ui w1 @ St_success [Lit (9989 # lit '' Found ''), Str (JInt 0), Lit (lit '' hits'')]
                   # fst (render_hits l 1 hits) \<and>
         fst (search_tab base net l f w) = snd (render_hits l 1 hits) \<and>
         length (titles (fst (render_hits l 1 hits))) \<le> length hits \<and>
         (snd (render_hits l 1 hits) = None \<longrightarrow>
            length (titles (fst (render_hits l 1 hits))) = length hits))) \<and>
   (org_submitted g \<and> strip (org_search_term g) \<noteq> [] \<and>
    net (calls v) (organizations_request base' (org_search_term g) (org_size g)) =
      Responds status' (Some result') \<and>
    \<not> raise_for_status status' \<longrightarrow>
      (\<not> truthy result' \<longrightarrow> ui (snd (org_tab base' net g v)) = ui v) \<and>
      (result' = JObj r' \<and> r' \<noteq> [] \<longrightarrow>
         (\<exists>rest. ui (snd (org_tab base' net g v)) =
            ui v @ St_success [Lit (9989 # lit '' Found ''),
                               Str (dict_get r' (lit ''total-hits'') (JInt 0)),
                               Lit (lit '' organizations'')] # rest)) \<and>
      (result' = JObj r' \<and> map_of r' (lit ''total-hits'') = None \<and>
       map_of r' (lit ''results'') = Some (JArr orgs) \<and> orgs \<noteq> [] \<longrightarrow>
         ui (snd (org_tab base' net g v)) =
           ui v @ St_success [Lit (9989 # lit '' Found ''), Str (JInt 0),
                              Lit (lit '' organizations'')]
                  # fst (render_orgs 1 orgs) \<and>
         fst (org_tab base' net g v) = snd (render_orgs 1 orgs) \<and>
         length (titles (fst (render_orgs 1 orgs))) \<le> length orgs \<and>
         (snd (render_orgs 1 orgs) = None \<longrightarrow>
            length (titles (fst (render_orgs 1 orgs))) = length orgs)))"
proof (intro conjI impI; (elim conjE)?)
  assume s: "form_submitted f" "strip (form_query f) \<noteq> []"
    "(if form_use_spelling f then spelling_step base net (form_query f) w
     else (JStr (form_query f), w)) = (sq, w1)"
    "net (calls w1) (search_request base sq (form_size f) (form_use_vector f) (form_alpha f)
      (lit (lang_code l))) = Responds status (Some result)"
    "\<not> raise_for_status status"
  note T = search_tab_on_response [where net = net and w = w and base = base, OF s]
  {
    assume "\<not> truthy result"
    then show "ui (snd (search_tab base net l f w)) = ui w1" using T by simp
  next
    assume "result = JObj r" "r \<noteq> []"
    then show "\<exists>rest. ui (snd (search_tab base net l f w)) =
            ui w1 @ St_success [Lit (9989 # lit '' Found ''),
                                Str (dict_get r (lit ''total-hits'') (JInt 0)),
                                Lit (lit '' hits'')] # rest"
      using T by (simp add: render_results_banner)
  next
    assume h: "result = JObj r" "map_of r (lit ''total-hits'') = None"
      "map_of r (lit ''Ranked-objects'') = Some (JArr hits)" "hits \<noteq> []"
    then have ne: "r \<noteq> []" by auto
    have R: "render_results l (JObj r) =
        (St_success [Lit (9989 # lit '' Found ''), Str (JInt 0), Lit (lit '' hits'')]
         # fst (render_hits l 1 hits), snd (render_hits l 1 hits))"
      using h by (simp add: render_results_def dict_get_def split: option.splits)
    show "ui (snd (search_tab base net l f w)) =
           ui w1 @ St_success [Lit (9989 # lit '' Found ''), Str (JInt 0), Lit (lit '' hits'')]
                   # fst (render_hits l 1 hits)"
      using T h(1) ne R by simp
    show "fst (search_tab base net l f w) = snd (render_hits l 1 hits)"
      using T h(1) ne R by simp
    show "length (titles (fst (render_hits l 1 hits))) \<le> length hits"
      by (rule titles_render_hits_le)
    {
      assume "snd (render_hits l 1 hits) = None"
      then show "length (titles (fst (render_hits l 1 hits))) = length hits"
        by (rule titles_render_hits)
    }
  }
next
  assume s: "org_submitted g" "strip (org_search_term g) \<noteq> []"
    "net (calls v) (organizations_request base' (org_search_term g) (org_size g)) =
      Responds status' (Some result')"
    "\<not> raise_for_status status'"
  note T = org_tab_on_response [where net = net and w = v and base = base', OF s]
  {
    assume "\<not> truthy result'"
    then show "ui (snd (org_tab base' net g v)) = ui v" using T by simp
  next
    assume "result' = JObj r'" "r' \<noteq> []"
    then show "\<exists>rest. ui (snd (org_tab base' net g v)) =
            ui v @ St_success [Lit (9989 # lit '' Found ''),
                               Str (dict_get r' (lit ''total-hits'') (JInt 0)),
                               Lit (lit '' organizations'')] # rest"
      using T by (simp add: render_org_results_def Let_def)
  next
    assume h: "result' = JObj r'" "map_of r' (lit ''total-hits'') = None"
      "map_of r' (lit ''results'') = Some (JArr orgs)" "orgs \<noteq> []"
    then have ne: "r' \<noteq> []" by auto
    have R: "render_org_results (JObj r') =
        (St_success [Lit (9989 # lit '' Found ''), Str (JInt 0), Lit (lit '' organizations'')]
         # fst (render_orgs 1 orgs), snd (render_orgs 1 orgs))"
      using h by (simp add: render_org_results_def dict_get_def split: option.splits)
    show "ui (snd (org_tab base' net g v)) =
           ui v @ St_success [Lit (9989 # lit '' Found ''), Str (JInt 0),
                              Lit (lit '' organizations'')]
                  # fst (render_orgs 1 orgs)"
      using T h(1) ne R by simp
    show "fst (org_tab base' net g v) = snd (render_orgs 1 orgs)"
      using T h(1) ne R by simp
    show "length (titles (fst (render_orgs 1 orgs))) \<le> length orgs"
      by (rule titles_render_orgs_le)
    {
      assume "snd (render_orgs 1 orgs) = None"
      then show "length (titles (fst (render_orgs 1 orgs))) = length orgs"
        by (rule titles_render_orgs)
    }
  }
qed

theorem banner_reads_total_hits_witness:
  "ui (snd (search_tab base0 net_uncounted Az form_plain fresh)) =
     St_success [Lit (9989 # lit '' Found ''), Str (JInt 0), Lit (lit '' hits'')]
     # fst (render_hits Az 1 [hit_1234, hit_half_score]) \<and>
   length (titles (fst (render_hits Az 1 [hit_1234, hit_half_score]))) = 2 \<and>
   text_of [Lit (9989 # lit '' Found ''), Str (JInt 0), Lit (lit '' hits'')] =
     Some (9989 # lit '' Found 0 hits'') \<and>
   ui (snd (org_tab base0 net_uncounted org_form_un fresh)) =
     St_success [Lit (9989 # lit '' Found ''), Str (JInt 0), Lit (lit '' organizations'')]
     # fst (render_orgs 1 [org_un, org_unesco]) \<and>
   length (titles (fst (render_orgs 1 [org_un, org_unesco]))) = 2"
proof -
  have s1: "form_submitted form_plain \<and> strip (form_query form_plain) \<noteq> [] \<and>
      (if form_use_spelling form_plain then spelling_step base0 net_uncounted (form_query form_plain) fresh
       else (JStr (form_query form_plain), fresh)) = (JStr (lit ''alu''), fresh) \<and>
      net_uncounted (calls fresh) (search_request base0 (JStr (lit ''alu'')) (form_size form_plain)
        (form_use_vector form_plain) (form_alpha form_plain) (lit (lang_code Az))) =
        Responds 200 (Some uncounted_response) \<and>
      \<not> raise_for_status 200"
    using strip_alu
    by (simp add: form_plain_def net_uncounted_def search_request_def raise_for_status_def)
      (simp add: lit_def)
  have s2: "uncounted_response = JObj [(lit ''Ranked-objects'', JArr [hit_1234, hit_half_score])] \<and>
      map_of [(lit ''Ranked-objects'', JArr [hit_1234, hit_half_score])] (lit ''total-hits'') = None \<and>
      map_of [(lit ''Ranked-objects'', JArr [hit_1234, hit_half_score])] (lit ''Ranked-objects'') =
        Some (JArr [hit_1234, hit_half_score]) \<and>
      [hit_1234, hit_half_score] \<noteq> []"
    by (simp add: uncounted_response_def)
  have s3: "snd (render_hits Az 1 [hit_1234, hit_half_score]) = None"
    by (simp add: hit_1234_def hit_half_score_def seqs_raises_nothing snd_render_source
        score_formattable_def tradings_wellformed_def hit_score_def py_or_def dict_get_def
        del: seqs.simps)
  have o1: "org_submitted org_form_un \<and> strip (org_search_term org_form_un) \<noteq> [] \<and>
      net_uncounted (calls fresh) (organizations_request base0 (org_search_term org_form_un)
        (org_size org_form_un)) = Responds 200 (Some uncounted_orgs) \<and>
      \<not> raise_for_status 200"
    using strip_UN
    by (simp add: org_form_un_def net_uncounted_def organizations_request_def
        raise_for_status_def)
  have o2: "uncounted_orgs = JObj [(lit ''results'', JArr [org_un, org_unesco])] \<and>
      map_of [(lit ''results'', JArr [org_un, org_unesco])] (lit ''total-hits'') = None \<and>
      map_of [(lit ''results'', JArr [org_un, org_unesco])] (lit ''results'') =
        Some (JArr [org_un, org_unesco]) \<and>
      [org_un, org_unesco] \<noteq> []"
    by (simp add: uncounted_orgs_def)
  have o3: "snd (render_orgs 1 [org_un, org_unesco]) = None"
    by (simp add: org_un_def org_unesco_def seqs_raises_nothing snd_score_line
        score_formattable_def dict_get_def del: seqs.simps)
  have c: "text_of [Lit (9989 # lit '' Found ''), Str (JInt 0), Lit (lit '' hits'')] =
     Some (9989 # lit '' Found 0 hits'')"
    by (simp add: show_int_def lit_def)
  have n: "length [hit_1234, hit_half_score] = 2" "length [org_un, org_unesco] = 2"
    by simp_all
  note T = banner_reads_total_hits [where f = form_plain and base = base0
      and net = net_uncounted and w = fresh and sq = "JStr (lit ''alu'')" and ?w1.0 = fresh
      and l = Az and status = 200 and result = uncounted_response
      and r = "[(lit ''Ranked-objects'', JArr [hit_1234, hit_half_score])]"
      and hits = "[hit_1234, hit_half_score]" and g = org_form_un and v = fresh
      and base' = base0 and status' = 200 and result' = uncounted_orgs
      and r' = "[(lit ''results'', JArr [org_un, org_unesco])]"
      and orgs = "[org_un, org_unesco]"]
  from T s1 s2 s3 have x1: "ui (snd (search_tab base0 net_uncounted Az form_plain fresh)) =
      ui fresh @ St_success [Lit (9989 # lit '' Found ''), Str (JInt 0), Lit (lit '' hits'')]
      # fst (render_hits Az 1 [hit_1234, hit_half_score])"
    by blast
  from T s1 s2 s3 have x2: "length (titles (fst (render_hits Az 1 [hit_1234, hit_half_score]))) =
      length [hit_1234, hit_half_score]"
    by blast
  from T o1 o2 o3 have y1: "ui (snd (org_tab base0 net_uncounted org_form_un fresh)) =
      ui fresh @ St_success [Lit (9989 # lit '' Found ''), Str (JInt 0),
                             Lit (lit '' organizations'')]
      # fst (render_orgs 1 [org_un, org_unesco])"
    by blast
  from T o1 o2 o3 have y2: "length (titles (fst (render_orgs 1 [org_un, org_unesco]))) =
      length [org_un, org_unesco]"
    by blast
  have u: "ui fresh = []" by (simp add: fresh_def)
  show ?thesis
    using x1 x2 y1 y2 c n u by (simp only: append_Nil simp_thms)
qed

subsection \<open>Determinism\<close>

text \<open>
  C8. Against a transport whose answer to a request does not depend on the calls made
  before, a run of a search tab draws the same elements and ends the same way whatever
  calls were made before it: in particular a second run of the same form, after the
  calls of the first, draws the same blocks as the first.
\<close>

theorem same_request_same_blocks:
  assumes "\<forall>h h' r. net h r = net h' r"
  shows "fst (search_tab base net l f \<lparr>calls = cs', ui = []\<rparr>) =
         fst (search_tab base net l f \<lparr>calls = cs, ui = []\<rparr>) \<and>
         ui (snd (search_tab base net l f \<lparr>calls = cs', ui = []\<rparr>)) =
         ui (snd (search_tab base net l f \<lparr>calls = cs, ui = []\<rparr>))"
proof -
  have U: "ui \<lparr>calls = cs', ui = []\<rparr> = ui \<lparr>calls = cs, ui = []\<rparr>" by simp
  note E = search_api_sim [OF assms U, of base "form_query f" "form_size f"
      "form_use_vector f" "form_alpha f" "lit (lang_code l)" "form_use_spelling f"]
  obtain r v where a: "search_api base net (form_query f) (form_size f) (form_use_vector f)
      (form_alpha f) (lit (lang_code l)) (form_use_spelling f) \<lparr>calls = cs', ui = []\<rparr> = (r, v)"
    by (cases "search_api base net (form_query f) (form_size f) (form_use_vector f)
      (form_alpha f) (lit (lang_code l)) (form_use_spelling f) \<lparr>calls = cs', ui = []\<rparr>")
  obtain r' v' where b: "search_api base net (form_query f) (form_size f) (form_use_vector f)
      (form_alpha f) (lit (lang_code l)) (form_use_spelling f) \<lparr>calls = cs, ui = []\<rparr> = (r', v')"
    by (cases "search_api base net (form_query f) (form_size f) (form_use_vector f)
      (form_alpha f) (lit (lang_code l)) (form_use_spelling f) \<lparr>calls = cs, ui = []\<rparr>")
  from E a b have "r = r' \<and> ui v = ui v'" by simp
  then show ?thesis
    by (simp add: search_tab_def st_def a b split: prod.splits sum.splits)
qed

theorem same_request_same_blocks_witness:
  "fst (search_tab base0 net_fixed Az form_alu
          \<lparr>calls = calls (snd (search_tab base0 net_fixed Az form_alu fresh)), ui = []\<rparr>) =
   fst (search_tab base0 net_fixed Az form_alu fresh) \<and>
   ui (snd (search_tab base0 net_fixed Az form_alu
          \<lparr>calls = calls (snd (search_tab base0 net_fixed Az form_alu fresh)), ui = []\<rparr>)) =
   ui (snd (search_tab base0 net_fixed Az form_alu fresh))"
proof -
  have h: "\<forall>h h' r. net_fixed h r = net_fixed h' r" by (simp add: net_fixed_def)
  show ?thesis
    using same_request_same_blocks [OF h, of base0 Az form_alu
        "calls (snd (search_tab base0 net_fixed Az form_alu fresh))" "[]"]
    by (simp add: fresh_def)
qed

end
